theory Spec2Isabelle
  imports Complex_Main "HOL-Library.Word"
begin

section \<open>Values, requests and responses\<close>

text \<open>
  The service is an Express application over PostgreSQL. Request bodies and stored
  settings documents are JSON; numbers are modelled as rationals (every JSON number
  literal is a decimal fraction), and \<open>JUndefined\<close> stands for a property that is absent.
\<close>

datatype json =
    JUndefined
  | JNull
  | JBool bool
  | JNum rat
  | JStr string
  | JArr "json list"
  | JObj "(string \<times> json) list"

text \<open>Property access \<open>o.k\<close>: absent keys, and properties of non-objects, read as undefined.\<close>

fun get :: "json \<Rightarrow> string \<Rightarrow> json" where
  "get (JObj kvs) k = (case map_of kvs k of Some v \<Rightarrow> v | None \<Rightarrow> JUndefined)"
| "get _ k = JUndefined"

text \<open>JavaScript truthiness, as used by \<open>!x\<close>, \<open>x || y\<close> and \<open>if (x)\<close>.\<close>

fun truthy :: "json \<Rightarrow> bool" where
  "truthy JUndefined = False"
| "truthy JNull = False"
| "truthy (JBool b) = b"
| "truthy (JNum n) = (n \<noteq> 0)"
| "truthy (JStr s) = (s \<noteq> [])"
| "truthy (JArr _) = True"
| "truthy (JObj _) = True"

text \<open>\<open>typeof x === 'number'\<close> and \<open>Array.isArray(x)\<close>.\<close>

fun is_number :: "json \<Rightarrow> bool" where
  "is_number (JNum _) = True"
| "is_number _ = False"

fun isArray :: "json \<Rightarrow> bool" where
  "isArray (JArr _) = True"
| "isArray _ = False"

text \<open>\<open>x || y\<close> and \<open>x !== false\<close> on JSON values.\<close>

definition js_or :: "json \<Rightarrow> json \<Rightarrow> json" where
  "js_or x y = (if truthy x then x else y)"

definition not_false :: "json \<Rightarrow> json" where
  "not_false x = JBool (x \<noteq> JBool False)"

record response =
  status :: nat
  body :: json

definition error_response :: "nat \<Rightarrow> string \<Rightarrow> response" where
  "error_response code msg = \<lparr>status = code, body = JObj [(''error'', JStr msg)]\<rparr>"

definition json_response :: "nat \<Rightarrow> json \<Rightarrow> response" where
  "json_response code b = \<lparr>status = code, body = b\<rparr>"

section \<open>Strings: split and hexadecimal encoding\<close>

text \<open>
  \<open>s.split(c)\<close> for a one-character separator: the pieces between the separators, in
  order; a string without the separator (the empty string too) gives one piece.
\<close>

fun split_on :: "char \<Rightarrow> string \<Rightarrow> string list" where
  "split_on c [] = [[]]"
| "split_on c (x # xs) =
     (if x = c then [] # split_on c xs
      else (case split_on c xs of
              p # ps \<Rightarrow> (x # p) # ps
            | [] \<Rightarrow> [[x]]))"

text \<open>\<open>parts[i]\<close>: reading past the end of an array gives undefined (\<open>None\<close>).\<close>

fun index :: "'a list \<Rightarrow> nat \<Rightarrow> 'a option" where
  "index [] i = None"
| "index (x # xs) 0 = Some x"
| "index (x # xs) (Suc i) = index xs i"

text \<open>\<open>s.startsWith(p)\<close>.\<close>

fun startsWith :: "string \<Rightarrow> string \<Rightarrow> bool" where
  "startsWith s [] = True"
| "startsWith [] (p # ps) = False"
| "startsWith (x # xs) (p # ps) = (x = p \<and> startsWith xs ps)"

text \<open>\<open>Buffer.toString('hex')\<close>: two lower-case hexadecimal digits per byte.\<close>

definition hexdigit :: "nat \<Rightarrow> char" where
  "hexdigit n = ''0123456789abcdef'' ! (n mod 16)"

definition hex_byte :: "8 word \<Rightarrow> string" where
  "hex_byte b = [hexdigit (unat b div 16), hexdigit (unat b mod 16)]"

definition toHex :: "8 word list \<Rightarrow> string" where
  "toHex bs = concat (map hex_byte bs)"

section \<open>Authentication helpers\<close>

text \<open>
  The payload of a bearer token, as \<open>generateToken\<close> signs it. \<open>jwt.verify\<close> is a library
  call: it is a parameter \<open>verify\<close> of the middleware, \<open>None\<close> when it throws.
\<close>

record user =
  userId :: string
  email :: string
  organizationId :: string
  role :: string

datatype middleware = Next "user option" | Respond response

text \<open>The token is \<open>authHeader.split(' ')[1]\<close>; verifying undefined throws.\<close>

definition bearer_token :: "string \<Rightarrow> string option" where
  "bearer_token authHeader = index (split_on CHR '' '' authHeader) 1"

definition jwt_verify :: "(string \<Rightarrow> user option) \<Rightarrow> string option \<Rightarrow> user option" where
  "jwt_verify verify tok = (case tok of None \<Rightarrow> None | Some t \<Rightarrow> verify t)"

definition requireAuth :: "(string \<Rightarrow> user option) \<Rightarrow> string option \<Rightarrow> middleware" where
  "requireAuth verify authorization =
     (case authorization of
        None \<Rightarrow> Respond (error_response 401 ''Authentication required'')
      | Some authHeader \<Rightarrow>
          if authHeader = [] \<or> \<not> startsWith authHeader ''Bearer ''
          then Respond (error_response 401 ''Authentication required'')
          else (case jwt_verify verify (bearer_token authHeader) of
                  Some u \<Rightarrow> Next (Some u)
                | None \<Rightarrow> Respond (error_response 401 ''Invalid token'')))"

definition optionalAuth :: "(string \<Rightarrow> user option) \<Rightarrow> string option \<Rightarrow> middleware" where
  "optionalAuth verify authorization =
     (case authorization of
        None \<Rightarrow> Next None
      | Some authHeader \<Rightarrow>
          if authHeader \<noteq> [] \<and> startsWith authHeader ''Bearer ''
          then (case jwt_verify verify (bearer_token authHeader) of
                  Some u \<Rightarrow> Next (Some u)
                | None \<Rightarrow> Next None)
          else Next None)"

text \<open>
  Password hashing. \<open>crypto.randomBytes(16)\<close> is the argument \<open>rnd\<close>, and
  \<open>crypto.pbkdf2Sync\<close> the parameter \<open>pbkdf2\<close> (password, salt, iterations, key length,
  digest), a deterministic function that returns the derived key's bytes.
\<close>

type_synonym kdf = "string \<Rightarrow> string \<Rightarrow> nat \<Rightarrow> nat \<Rightarrow> string \<Rightarrow> 8 word list"

definition hashPassword :: "kdf \<Rightarrow> 8 word list \<Rightarrow> string \<Rightarrow> string" where
  "hashPassword pbkdf2 rnd password =
     (let salt = toHex rnd;
          hash = toHex (pbkdf2 password salt 1000 64 ''sha512'')
      in salt @ '':'' @ hash)"

definition verifyPassword :: "kdf \<Rightarrow> string \<Rightarrow> string \<Rightarrow> bool" where
  "verifyPassword pbkdf2 password storedHash =
     (let parts = split_on CHR '':'' storedHash in
      case index parts 0 of
        None \<Rightarrow> False
      | Some salt \<Rightarrow>
          (let testHash = toHex (pbkdf2 password salt 1000 64 ''sha512'') in
           case index parts 1 of
             None \<Rightarrow> False
           | Some hash \<Rightarrow> hash = testHash))"

section \<open>The database\<close>

text \<open>
  The tables of \<open>schema.sql\<close> that the handlers below touch, one record per row with the
  columns the handlers read or write (the generated key of \<open>quote_items\<close> and the
  \<open>created_at\<close> stamps are never read by them). Identifiers are UUID strings; columns
  filled from a request body hold the JSON value that was sent. \<open>NOW()\<close> is the argument
  \<open>now\<close> and \<open>uuidv4()\<close> the argument \<open>newid\<close> of a handler.

  Every handler body is a \<open>try\<close> block whose \<open>catch\<close> answers 500. The flag \<open>failing\<close>
  makes each \<open>db.query\<close> throw; with the flag off a query is answered from the tables
  (constraint violations of the schema are not modelled).
\<close>

record quote_row =
  q_id :: string
  q_organization_id :: string
  q_customer_id :: json
  q_distance :: json
  q_notes :: json
  q_status :: string
  q_created_by :: string
  q_sent_at :: "nat option"
  q_updated_at :: nat

record quote_item_row =
  qi_quote_id :: string
  qi_product_id :: json
  qi_cases :: json
  qi_margin_percent :: json
  qi_unit_cost :: json
  qi_freight_cost :: json
  qi_line_total :: json

record customer_row =
  c_id :: string
  c_organization_id :: string
  c_name :: json
  c_type :: json
  c_region_id :: json

record product_row =
  p_id :: string
  p_organization_id :: string
  p_name :: json
  p_unit_type :: json
  p_cases_per_pallet :: json
  p_cost_per_case :: json
  p_weight :: json
  p_farm :: json
  p_location :: json
  p_category :: json
  p_bipoc :: json
  p_gap_certified :: json
  p_available :: json

record settings_row =
  ps_organization_id :: string
  ps_settings :: json

record database =
  failing :: bool
  quotes :: "quote_row list"
  quote_items :: "quote_item_row list"
  customers :: "customer_row list"
  products :: "product_row list"
  pricing_settings :: "settings_row list"

definition success :: json where
  "success = JObj [(''success'', JBool True)]"

definition opt_num :: "nat option \<Rightarrow> json" where
  "opt_num t = (case t of None \<Rightarrow> JNull | Some n \<Rightarrow> JNum (of_nat n))"

definition quote_json :: "quote_row \<Rightarrow> json" where
  "quote_json q = JObj
     [(''id'', JStr (q_id q)), (''organization_id'', JStr (q_organization_id q)),
      (''customer_id'', q_customer_id q), (''distance'', q_distance q),
      (''notes'', q_notes q), (''status'', JStr (q_status q)),
      (''created_by'', JStr (q_created_by q)), (''sent_at'', opt_num (q_sent_at q)),
      (''updated_at'', JNum (of_nat (q_updated_at q)))]"

definition product_json :: "product_row \<Rightarrow> json" where
  "product_json p = JObj
     [(''id'', JStr (p_id p)), (''organization_id'', JStr (p_organization_id p)),
      (''name'', p_name p), (''unit_type'', p_unit_type p),
      (''cases_per_pallet'', p_cases_per_pallet p), (''cost_per_case'', p_cost_per_case p),
      (''weight'', p_weight p), (''farm'', p_farm p), (''location'', p_location p),
      (''category'', p_category p), (''bipoc'', p_bipoc p),
      (''gap_certified'', p_gap_certified p), (''available'', p_available p)]"

section \<open>Quote routes\<close>

text \<open>
  Bodies of the quote routes are taken as the client of the API sends them: \<open>items\<close>,
  when present, is an array of line-item objects.
\<close>

record item_body =
  productId :: json
  cases :: json
  marginPercent :: json
  unitCost :: json
  freightCost :: json
  lineTotal :: json

record quote_body =
  customerId :: json
  distance :: json
  notes' :: json
  items :: "item_body list option"

definition item_row :: "string \<Rightarrow> item_body \<Rightarrow> quote_item_row" where
  "item_row quoteId item =
     \<lparr>qi_quote_id = quoteId, qi_product_id = productId item, qi_cases = cases item,
      qi_margin_percent = marginPercent item, qi_unit_cost = unitCost item,
      qi_freight_cost = freightCost item, qi_line_total = lineTotal item\<rparr>"

text \<open>\<open>POST /api/quotes\<close>: the quote is inserted with status \<open>'draft'\<close>, then its items.\<close>

definition create_quote ::
  "database \<Rightarrow> user \<Rightarrow> quote_body \<Rightarrow> string \<Rightarrow> nat \<Rightarrow> response \<times> database" where
  "create_quote db u b newid now =
     (if failing db then (error_response 500 ''Failed to create quote'', db)
      else
        let quoteId = newid;
            quote = \<lparr>q_id = quoteId, q_organization_id = organizationId u,
                     q_customer_id = customerId b, q_distance = distance b,
                     q_notes = notes' b, q_status = ''draft'', q_created_by = userId u,
                     q_sent_at = None, q_updated_at = now\<rparr>;
            its = (case items b of None \<Rightarrow> [] | Some xs \<Rightarrow> xs)
        in (json_response 201 (JObj [(''quote'', quote_json quote)]),
            db\<lparr>quotes := quotes db @ [quote],
               quote_items := quote_items db @ map (item_row quoteId) its\<rparr>))"

text \<open>
  \<open>PUT /api/quotes/:id\<close>: the ownership check comes first; the quote's items are
  replaced only when the body carries \<open>items\<close>. The status column is not written.
\<close>

definition update_quote ::
  "database \<Rightarrow> user \<Rightarrow> string \<Rightarrow> quote_body \<Rightarrow> nat \<Rightarrow> response \<times> database" where
  "update_quote db u qid b now =
     (if failing db then (error_response 500 ''Failed to update quote'', db)
      else
        let existing = filter (\<lambda>q. q_id q = qid \<and> q_organization_id q = organizationId u)
                         (quotes db)
        in if length existing = 0 then (error_response 404 ''Quote not found'', db)
           else
             let db1 = db\<lparr>quotes := map (\<lambda>q. if q_id q = qid
                                               then q\<lparr>q_customer_id := customerId b,
                                                      q_distance := distance b,
                                                      q_notes := notes' b,
                                                      q_updated_at := now\<rparr>
                                               else q) (quotes db)\<rparr>;
                 db2 = (case items b of
                          None \<Rightarrow> db1
                        | Some its \<Rightarrow>
                            db1\<lparr>quote_items :=
                                  filter (\<lambda>r. qi_quote_id r \<noteq> qid) (quote_items db1)
                                  @ map (item_row qid) its\<rparr>)
             in (json_response 200 success, db2))"

text \<open>
  \<open>POST /api/quotes/:id/finalize\<close>: one \<open>UPDATE\<close> filtered by id and organization, with
  no condition on the current status.
\<close>

definition finalize_quote ::
  "database \<Rightarrow> user \<Rightarrow> string \<Rightarrow> nat \<Rightarrow> response \<times> database" where
  "finalize_quote db u qid now =
     (if failing db then (error_response 500 ''Failed to finalize quote'', db)
      else
        let hit = (\<lambda>q. q_id q = qid \<and> q_organization_id q = organizationId u);
            upd = (\<lambda>q. q\<lparr>q_status := ''sent'', q_sent_at := Some now, q_updated_at := now\<rparr>);
            db1 = db\<lparr>quotes := map (\<lambda>q. if hit q then upd q else q) (quotes db)\<rparr>;
            rows = map upd (filter hit (quotes db))
        in case rows of
             [] \<Rightarrow> (error_response 404 ''Quote not found'', db1)
           | r # _ \<Rightarrow> (json_response 200 (JObj [(''quote'', quote_json r)]), db1))"

text \<open>
  \<open>DELETE /api/quotes/:id\<close>: the items are deleted by quote id alone, before the quote
  itself is deleted by id and organization.
\<close>

definition delete_quote :: "database \<Rightarrow> user \<Rightarrow> string \<Rightarrow> response \<times> database" where
  "delete_quote db u qid =
     (if failing db then (error_response 500 ''Failed to delete quote'', db)
      else
        let db1 = db\<lparr>quote_items := filter (\<lambda>r. qi_quote_id r \<noteq> qid) (quote_items db)\<rparr>;
            hit = (\<lambda>q. q_id q = qid \<and> q_organization_id q = organizationId u);
            rows = filter hit (quotes db1);
            db2 = db1\<lparr>quotes := filter (\<lambda>q. \<not> hit q) (quotes db1)\<rparr>
        in if length rows = 0 then (error_response 404 ''Quote not found'', db2)
           else (json_response 200 success, db2))"

section \<open>Customer and product routes\<close>

text \<open>
  \<open>DELETE /api/customers/:id\<close>: one \<open>DELETE\<close> filtered by id and organization. The
  schema's \<open>ON DELETE SET NULL\<close> clears the customer of the quotes that referred to a
  deleted row.
\<close>

definition delete_customer :: "database \<Rightarrow> user \<Rightarrow> string \<Rightarrow> response \<times> database" where
  "delete_customer db u cid =
     (if failing db then (error_response 500 ''Failed to delete customer'', db)
      else
        let hit = (\<lambda>c. c_id c = cid \<and> c_organization_id c = organizationId u);
            rows = filter hit (customers db);
            db1 = db\<lparr>customers := filter (\<lambda>c. \<not> hit c) (customers db)\<rparr>
        in if length rows = 0 then (error_response 404 ''Customer not found'', db1)
           else (json_response 200 success,
                 db1\<lparr>quotes := map (\<lambda>q. if q_customer_id q = JStr cid
                                          then q\<lparr>q_customer_id := JNull\<rparr> else q)
                                   (quotes db1)\<rparr>))"

text \<open>
  \<open>POST /api/products\<close> of the products router. The required fields are tested with
  \<open>!name || !costPerCase\<close>, before any query.
\<close>

definition create_product ::
  "database \<Rightarrow> user \<Rightarrow> json \<Rightarrow> string \<Rightarrow> response \<times> database" where
  "create_product db u b newid =
     (let name = get b ''name''; costPerCase = get b ''costPerCase'' in
      if \<not> truthy name \<or> \<not> truthy costPerCase
      then (error_response 400 ''Name and cost per case are required'', db)
      else if failing db then (error_response 500 ''Failed to create product'', db)
      else
        let row = \<lparr>p_id = newid, p_organization_id = organizationId u, p_name = name,
                   p_unit_type = get b ''unitType'',
                   p_cases_per_pallet = get b ''casesPerPallet'',
                   p_cost_per_case = costPerCase, p_weight = get b ''weight'',
                   p_farm = get b ''farm'', p_location = get b ''location'',
                   p_category = get b ''category'',
                   p_bipoc = js_or (get b ''bipoc'') (JBool False),
                   p_gap_certified = js_or (get b ''gapCertified'') (JBool False),
                   p_available = not_false (get b ''available'')\<rparr>
        in (json_response 201 (JObj [(''product'', product_json row)]),
            db\<lparr>products := products db @ [row]\<rparr>))"

text \<open>The same route in the single-file server: another message, and \<open>available\<close> is true.\<close>

definition create_product_standalone ::
  "database \<Rightarrow> user \<Rightarrow> json \<Rightarrow> string \<Rightarrow> response \<times> database" where
  "create_product_standalone db u b newid =
     (let name = get b ''name''; costPerCase = get b ''costPerCase'' in
      if \<not> truthy name \<or> \<not> truthy costPerCase
      then (error_response 400 ''Name and cost required'', db)
      else if failing db then (error_response 500 ''Failed to create product'', db)
      else
        let row = \<lparr>p_id = newid, p_organization_id = organizationId u, p_name = name,
                   p_unit_type = get b ''unitType'',
                   p_cases_per_pallet = get b ''casesPerPallet'',
                   p_cost_per_case = costPerCase, p_weight = get b ''weight'',
                   p_farm = get b ''farm'', p_location = get b ''location'',
                   p_category = get b ''category'',
                   p_bipoc = js_or (get b ''bipoc'') (JBool False),
                   p_gap_certified = js_or (get b ''gapCertified'') (JBool False),
                   p_available = JBool True\<rparr>
        in (json_response 201 (JObj [(''product'', product_json row)]),
            db\<lparr>products := products db @ [row]\<rparr>))"

section \<open>Settings routes\<close>

definition tier :: "rat \<Rightarrow> rat \<Rightarrow> rat \<Rightarrow> json" where
  "tier lo hi d = JObj [(''minCases'', JNum lo), (''maxCases'', JNum hi), (''discount'', JNum d)]"

definition region :: "string \<Rightarrow> string \<Rightarrow> rat \<Rightarrow> json" where
  "region i n d = JObj [(''id'', JStr i), (''name'', JStr n), (''distance'', JNum d)]"

definition getDefaultSettings :: json where
  "getDefaultSettings = JObj
     [(''baseFreightRate'', JNum 125),
      (''perMileRate'', JNum (85 / 100)),
      (''palletBreakSurcharge'', JNum 15),
      (''minFreight'', JNum 75),
      (''marginFoodBank'', JNum 20),
      (''marginSchool'', JNum 15),
      (''marginCorporate'', JNum 25),
      (''volumeTiers'', JArr
         [tier 0 50 0, tier 51 150 8, tier 151 300 15, tier 301 9999 22]),
      (''regions'', JArr
         [region ''east-bay'' ''East Bay'' 25,
          region ''sf'' ''San Francisco'' 40,
          region ''south-bay'' ''South Bay'' 55,
          region ''central-coast'' ''Central Coast'' 120,
          region ''sacramento'' ''Sacramento'' 85,
          region ''central-valley'' ''Central Valley'' 150,
          region ''socal'' ''Southern California'' 400])]"

text \<open>\<open>x < 0\<close>, evaluated only after \<open>typeof x\<close> was found to be \<open>'number'\<close>.\<close>

fun negative :: "json \<Rightarrow> bool" where
  "negative (JNum n) = (n < 0)"
| "negative _ = False"

text \<open>\<open>validateSettings\<close> returns the error message, or null (\<open>None\<close>) for a valid document.\<close>

definition validateSettings :: "json \<Rightarrow> string option" where
  "validateSettings settings =
     (if \<not> is_number (get settings ''baseFreightRate'')
         \<or> negative (get settings ''baseFreightRate'')
      then Some ''Base freight rate must be a non-negative number''
      else if \<not> is_number (get settings ''perMileRate'')
              \<or> negative (get settings ''perMileRate'')
      then Some ''Per-mile rate must be a non-negative number''
      else if \<not> is_number (get settings ''palletBreakSurcharge'')
              \<or> negative (get settings ''palletBreakSurcharge'')
      then Some ''Pallet break surcharge must be a non-negative number''
      else if \<not> isArray (get settings ''volumeTiers'')
      then Some ''Volume tiers must be an array''
      else if \<not> isArray (get settings ''regions'')
      then Some ''Regions must be an array''
      else None)"

text \<open>\<open>GET /api/settings\<close>: the organization's row, or the default document when it has none.\<close>

definition get_settings :: "database \<Rightarrow> user \<Rightarrow> response" where
  "get_settings db u =
     (if failing db then error_response 500 ''Failed to get settings''
      else
        let rows = filter (\<lambda>r. ps_organization_id r = organizationId u) (pricing_settings db)
        in case rows of
             [] \<Rightarrow> json_response 200 (JObj [(''settings'', getDefaultSettings)])
           | r # _ \<Rightarrow> json_response 200 (JObj [(''settings'', ps_settings r)]))"

text \<open>\<open>INSERT ... ON CONFLICT (organization_id) DO UPDATE\<close>.\<close>

definition upsert_settings :: "string \<Rightarrow> json \<Rightarrow> settings_row list \<Rightarrow> settings_row list" where
  "upsert_settings org doc rows =
     (if list_ex (\<lambda>r. ps_organization_id r = org) rows
      then map (\<lambda>r. if ps_organization_id r = org then r\<lparr>ps_settings := doc\<rparr> else r) rows
      else rows @ [\<lparr>ps_organization_id = org, ps_settings = doc\<rparr>])"

text \<open>\<open>PUT /api/settings\<close>: a document is stored when \<open>validateSettings\<close> accepts it.\<close>

definition put_settings :: "database \<Rightarrow> user \<Rightarrow> json \<Rightarrow> response \<times> database" where
  "put_settings db u b =
     (let settings = get b ''settings'' in
      if \<not> truthy settings then (error_response 400 ''Settings object is required'', db)
      else case validateSettings settings of
             Some validationError \<Rightarrow> (error_response 400 validationError, db)
           | None \<Rightarrow>
               if failing db then (error_response 500 ''Failed to update settings'', db)
               else (json_response 200 (JObj [(''success'', JBool True), (''settings'', settings)]),
                     db\<lparr>pricing_settings :=
                          upsert_settings (organizationId u) settings (pricing_settings db)\<rparr>))"

text \<open>
  The invariant of the settings document, on its JSON form: a case count is covered when
  some tier has \<open>minCases \<le> n \<le> maxCases\<close>, and a tier is ordered when
  \<open>minCases \<le> maxCases\<close>.
\<close>

definition volumeTiers_of :: "json \<Rightarrow> json list" where
  "volumeTiers_of settings =
     (case get settings ''volumeTiers'' of JArr ts \<Rightarrow> ts | _ \<Rightarrow> [])"

definition tier_covers :: "json \<Rightarrow> int \<Rightarrow> bool" where
  "tier_covers t n =
     (case (get t ''minCases'', get t ''maxCases'') of
        (JNum lo, JNum hi) \<Rightarrow> lo \<le> of_int n \<and> of_int n \<le> hi
      | _ \<Rightarrow> False)"

definition covered :: "json list \<Rightarrow> int \<Rightarrow> bool" where
  "covered ts n = list_ex (\<lambda>t. tier_covers t n) ts"

definition tier_ordered :: "json \<Rightarrow> bool" where
  "tier_ordered t =
     (case (get t ''minCases'', get t ''maxCases'') of
        (JNum lo, JNum hi) \<Rightarrow> lo \<le> hi
      | _ \<Rightarrow> False)"

section \<open>AI routes\<close>

text \<open>
  What follows the input checks inside a handler's \<open>try\<close> block (building the prompt and
  the call of the external API) either throws an error, of which the \<open>catch\<close> reads only
  the \<open>status\<close> property, or returns the content blocks of the API's answer. That outcome
  is the argument \<open>outcome\<close> of a handler. The token counters that the chat route copies
  from the answer are left out of its response.
\<close>

type_synonym block = "string \<times> string"

type_synonym api_outcome = "nat option + block list"

text \<open>\<open>filter(block => block.type === 'text').map(block => block.text).join('\n')\<close>.\<close>

fun join :: "string \<Rightarrow> string list \<Rightarrow> string" where
  "join sep [] = []"
| "join sep [x] = x"
| "join sep (x # y # ys) = x @ sep @ join sep (y # ys)"

definition text_of :: "block list \<Rightarrow> string" where
  "text_of content = join [CHR 0x0A] (map snd (filter (\<lambda>b. fst b = ''text'') content))"

definition is_string :: "json \<Rightarrow> bool" where
  "is_string v = (case v of JStr _ \<Rightarrow> True | _ \<Rightarrow> False)"

definition chat :: "bool \<Rightarrow> api_outcome \<Rightarrow> json \<Rightarrow> response" where
  "chat api_key_set outcome b =
     (let message = get b ''message'' in
      if \<not> truthy message \<or> \<not> is_string message
      then error_response 400 ''Message is required''
      else if \<not> api_key_set
      then error_response 503 ''AI service not configured. Please set ANTHROPIC_API_KEY.''
      else case outcome of
             Inr content \<Rightarrow> json_response 200 (JObj [(''response'', JStr (text_of content))])
           | Inl err \<Rightarrow>
               if err = Some 401 then error_response 503 ''AI service authentication failed''
               else if err = Some 429
               then error_response 429 ''AI rate limit exceeded. Please try again later.''
               else error_response 500 ''Failed to get AI response'')"

text \<open>
  The quote context that the client sends for analysis. Its line items carry the fields
  the prompt builder reads; \<open>None\<close> is an absent property.
\<close>

record context_item =
  ci_product :: string
  ci_cases :: "rat option"
  ci_lineTotal :: "rat option"
  ci_pricePerCase :: "rat option"
  ci_marginPercent :: rat
  ci_bipoc :: bool

record context_quote =
  cq_customerName :: "string option"
  cq_customerType :: "string option"
  cq_distance :: "rat option"
  cq_items :: "context_item list option"

record quote_totals =
  totalCases :: rat
  totalValue :: rat
  bipocCount :: nat
  itemCount :: nat
  bipocPercent :: int

text \<open>
  JavaScript numbers are IEEE doubles: an arithmetic operation returns its exact result
  rounded to the nearest double. That rounding is the parameter \<open>rnd\<close> of the functions
  below, which apply it after each operation the source performs. What is used of it is
  collected in \<open>double_rounding\<close>: rounding to nearest is monotone, and 0, 1 and 100
  are doubles, so they are left as they are.
\<close>

type_synonym rounding = "rat \<Rightarrow> rat"

definition double_rounding :: "rounding \<Rightarrow> bool" where
  "double_rounding rnd \<longleftrightarrow> mono rnd \<and> rnd 0 = 0 \<and> rnd 1 = 1 \<and> rnd 100 = 100"

text \<open>
  \<open>bipocCount / items.length\<close>, a division of two integers in doubles, and
  \<open>Math.round\<close>, which takes a double to the nearest integer exactly, halves upwards.
\<close>

definition bipoc_fraction :: "rounding \<Rightarrow> context_item list \<Rightarrow> rat" where
  "bipoc_fraction rnd its = rnd (of_nat (length (filter ci_bipoc its)) / of_nat (length its))"

definition math_round :: "rat \<Rightarrow> int" where
  "math_round x = \<lfloor>x + 1 / 2\<rfloor>"

text \<open>
  The aggregation inside \<open>buildSystemPrompt\<close>: the totals and the BIPOC share are
  computed, and their three lines added to the prompt, only under the guard
  \<open>items && items.length > 0\<close>; \<open>None\<close> is a prompt without them.
\<close>

definition summary :: "rounding \<Rightarrow> context_quote \<Rightarrow> quote_totals option" where
  "summary rnd quote =
     (case cq_items quote of
        None \<Rightarrow> None
      | Some its \<Rightarrow>
          if length its > 0
          then Some
            \<lparr>totalCases =
               foldl (\<lambda>sum i. rnd (sum + (case ci_cases i of None \<Rightarrow> 0 | Some c \<Rightarrow> c))) 0 its,
             totalValue =
               foldl (\<lambda>sum i. rnd (sum + (case ci_lineTotal i of None \<Rightarrow> 0 | Some v \<Rightarrow> v)))
                 0 its,
             bipocCount = length (filter ci_bipoc its),
             itemCount = length its,
             bipocPercent = math_round (rnd (bipoc_fraction rnd its * 100))\<rparr>
          else None)"

text \<open>\<open>POST /api/ai/analyze-quote\<close>: a quote without items is refused before the analysis.\<close>

definition analyze_quote :: "api_outcome \<Rightarrow> context_quote option \<Rightarrow> response" where
  "analyze_quote outcome quote =
     (let no_items = (case quote of
                        None \<Rightarrow> True
                      | Some q \<Rightarrow> (case cq_items q of
                                    None \<Rightarrow> True
                                  | Some its \<Rightarrow> length its = 0))
      in if no_items then error_response 400 ''Quote with items is required''
         else case outcome of
                Inr content \<Rightarrow> json_response 200 (JObj [(''analysis'', JStr (text_of content))])
              | Inl err \<Rightarrow> error_response 500 ''Failed to analyze quote'')"

text \<open>\<open>POST /api/ai/suggest-margin\<close>: no input check.\<close>

definition suggest_margin :: "api_outcome \<Rightarrow> response" where
  "suggest_margin outcome =
     (case outcome of
        Inr content \<Rightarrow> json_response 200 (JObj [(''suggestion'', JStr (text_of content))])
      | Inl err \<Rightarrow> error_response 500 ''Failed to get margin suggestion'')"

text \<open>A route behind a middleware: the handler runs when the middleware calls \<open>next\<close>.\<close>

definition route :: "middleware \<Rightarrow> (user option \<Rightarrow> response) \<Rightarrow> response" where
  "route m handler = (case m of Next u \<Rightarrow> handler u | Respond r \<Rightarrow> r)"

definition ai_chat ::
  "(string \<Rightarrow> user option) \<Rightarrow> string option \<Rightarrow> bool \<Rightarrow> api_outcome \<Rightarrow> json \<Rightarrow> response" where
  "ai_chat verify authorization api_key_set outcome b =
     route (optionalAuth verify authorization) (\<lambda>u. chat api_key_set outcome b)"

definition ai_analyze_quote ::
  "(string \<Rightarrow> user option) \<Rightarrow> string option \<Rightarrow> api_outcome \<Rightarrow> context_quote option \<Rightarrow> response" where
  "ai_analyze_quote verify authorization outcome quote =
     route (optionalAuth verify authorization) (\<lambda>u. analyze_quote outcome quote)"

definition ai_suggest_margin ::
  "(string \<Rightarrow> user option) \<Rightarrow> string option \<Rightarrow> api_outcome \<Rightarrow> response" where
  "ai_suggest_margin verify authorization outcome =
     route (optionalAuth verify authorization) (\<lambda>u. suggest_margin outcome)"

section \<open>The pricing calculator\<close>

text \<open>
  Modelled from the spec: the data of the pricing calculator (section 3) and its errors
  (section 7). The freight calculation (\<open>services/logistics.js\<close> in the project
  layout) is missing from the sources; the server only stores the figures that a client
  computed.
\<close>

datatype pricing_error = InvalidInput | ConfigurationMissing

datatype customer_type = FoodBank | School | Corporate

record VolumeTier =
  minCases :: rat
  maxCases :: rat
  discount :: rat

record PricingSettings =
  baseFreightRate :: rat
  perMileRate :: rat
  palletBreakSurcharge :: rat
  minFreight :: rat
  marginFoodBank :: rat
  marginSchool :: rat
  marginCorporate :: rat
  volumeTiers :: "VolumeTier list"

record Product =
  casesPerPallet :: int
  costPerCase :: rat
  bipoc :: bool

record LinePrice =
  unit_cost :: rat
  freight_cost :: rat
  line_total :: rat

text \<open>
  Modelled from the spec: the helpers of \<open>price_line\<close>, which is missing from the
  sources. A case count is a number that may fail to be an integer; the margin defaults
  to the customer type's entry of the settings.
\<close>

definition is_integer :: "rat \<Rightarrow> bool" where
  "is_integer x = (of_int \<lfloor>x\<rfloor> = x)"

definition default_margin :: "PricingSettings \<Rightarrow> customer_type \<Rightarrow> rat" where
  "default_margin settings ct =
     (case ct of
        FoodBank \<Rightarrow> marginFoodBank settings
      | School \<Rightarrow> marginSchool settings
      | Corporate \<Rightarrow> marginCorporate settings)"

text \<open>
  Modelled from the spec: the tier lookup of \<open>price_line\<close>, the first tier in
  declaration order with \<open>minCases \<le> cases \<le> maxCases\<close>.
\<close>

definition matching_tier :: "VolumeTier list \<Rightarrow> rat \<Rightarrow> VolumeTier option" where
  "matching_tier tiers n = find (\<lambda>t. minCases t \<le> n \<and> n \<le> maxCases t) tiers"

text \<open>
  Modelled from the spec: the steps of \<open>price_line\<close>, which is missing from the sources.
  Freight per pallet is \<open>baseFreightRate + perMileRate * distance\<close>, and a line is
  charged \<open>ceil(cases / casesPerPallet)\<close> pallets. A line whose cases do not divide
  evenly has a partial pallet, which incurs \<open>palletBreakSurcharge\<close> percent additional
  on its share. The spec does not say what that share amounts to (section 9 leaves the
  interaction open, and the worked example of section 8 adds nothing for its partial
  pallet), so the amount is the parameter \<open>charge\<close>, a function of the surcharge
  percentage, the freight per pallet, the cases and the cases per pallet.
\<close>

type_synonym break_charge = "rat \<Rightarrow> rat \<Rightarrow> rat \<Rightarrow> int \<Rightarrow> rat"

definition freight_per_pallet :: "PricingSettings \<Rightarrow> rat \<Rightarrow> rat" where
  "freight_per_pallet settings miles = baseFreightRate settings + perMileRate settings * miles"

definition pallet_count :: "Product \<Rightarrow> rat \<Rightarrow> int" where
  "pallet_count product n = \<lceil>n / of_int (casesPerPallet product)\<rceil>"

definition base_freight ::
  "break_charge \<Rightarrow> Product \<Rightarrow> rat \<Rightarrow> rat \<Rightarrow> PricingSettings \<Rightarrow> rat" where
  "base_freight charge product n miles settings =
     (let per_pallet = freight_per_pallet settings miles;
          pallets = of_int (pallet_count product n) * per_pallet
      in if \<lfloor>n\<rfloor> mod casesPerPallet product \<noteq> 0
         then pallets + charge (palletBreakSurcharge settings) per_pallet n
                          (casesPerPallet product)
         else pallets)"

definition sale_price :: "Product \<Rightarrow> rat \<Rightarrow> rat" where
  "sale_price product margin = costPerCase product * (1 + margin / 100)"

text \<open>
  Modelled from the spec: \<open>price_line\<close>, the pricing calculator of section 4.1, which is
  missing from the sources.
  \<^item> A case count that is not a positive integer is \<open>InvalidInput\<close>; so are, after the
    error taxonomy of section 7, a negative rate and a settings document in which no
    tier matches, and a product without a positive \<open>casesPerPallet\<close>.
  \<^item> The matching tier's discount reduces the base freight only; the result is floored
    at \<open>minFreight\<close>.
  \<^item> The sale price per case is \<open>costPerCase * (1 + margin / 100)\<close>, the margin being
    the line's override when there is one and the customer type's default otherwise.
  \<^item> \<open>unit_cost\<close> is the vendor cost per case at the time of the quote, as the schema's
    column comment has it.
\<close>

definition price_line ::
  "break_charge \<Rightarrow> Product \<Rightarrow> rat \<Rightarrow> customer_type \<Rightarrow> rat \<Rightarrow> PricingSettings
     \<Rightarrow> rat option \<Rightarrow> pricing_error + LinePrice" where
  "price_line charge product n ct miles settings margin_override =
     (if n \<le> 0 \<or> \<not> is_integer n then Inl InvalidInput
      else if baseFreightRate settings < 0 \<or> perMileRate settings < 0
              \<or> palletBreakSurcharge settings < 0 \<or> casesPerPallet product \<le> 0
      then Inl InvalidInput
      else case matching_tier (volumeTiers settings) n of
             None \<Rightarrow> Inl InvalidInput
           | Some t \<Rightarrow>
               let freight = base_freight charge product n miles settings;
                   discounted = freight * (1 - discount t / 100);
                   freight_total = max (minFreight settings) discounted;
                   margin = (case margin_override of
                               Some m \<Rightarrow> m
                             | None \<Rightarrow> default_margin settings ct)
               in Inr \<lparr>unit_cost = costPerCase product,
                       freight_cost = freight_total,
                       line_total = sale_price product margin * n + freight_total\<rparr>)"

text \<open>
  The worked example of section 8: the product, the settings with one tier, and the
  example's way with the partial pallet, which is to add nothing.
\<close>

definition no_break_charge :: break_charge where
  "no_break_charge percent per_pallet n per = 0"

definition example_product :: Product where
  "example_product = \<lparr>casesPerPallet = 49, costPerCase = 2695 / 100, bipoc = False\<rparr>"

definition example_settings :: "rat \<Rightarrow> PricingSettings" where
  "example_settings surcharge =
     \<lparr>baseFreightRate = 125, perMileRate = 85 / 100, palletBreakSurcharge = surcharge,
      minFreight = 75, marginFoodBank = 20, marginSchool = 15, marginCorporate = 25,
      volumeTiers = [\<lparr>minCases = 51, maxCases = 150, discount = 8\<rparr>]\<rparr>"


section \<open>Sample data\<close>

text \<open>
  Two organizations. Alice belongs to \<open>org-a\<close>; quote \<open>q1\<close> is hers and was rejected,
  quote \<open>q2\<close> belongs to \<open>org-b\<close>. Each quote has one line item.
\<close>

definition alice :: user where
  "alice = \<lparr>userId = ''u1'', email = ''alice@a.example'', organizationId = ''org-a'',
            role = ''admin''\<rparr>"

definition sample_item :: "string \<Rightarrow> quote_item_row" where
  "sample_item qid =
     \<lparr>qi_quote_id = qid, qi_product_id = JStr ''p1'', qi_cases = JNum 100,
      qi_margin_percent = JNum 20, qi_unit_cost = JNum (2695 / 100),
      qi_freight_cost = JNum 477, qi_line_total = JNum 3711\<rparr>"

definition sample_quote :: "string \<Rightarrow> string \<Rightarrow> string \<Rightarrow> quote_row" where
  "sample_quote qid org st =
     \<lparr>q_id = qid, q_organization_id = org, q_customer_id = JNull, q_distance = JNum 40,
      q_notes = JNull, q_status = st, q_created_by = ''u0'', q_sent_at = None,
      q_updated_at = 1\<rparr>"

definition sample_db :: database where
  "sample_db =
     \<lparr>failing = False,
      quotes = [sample_quote ''q1'' ''org-a'' ''rejected'', sample_quote ''q2'' ''org-b'' ''draft''],
      quote_items = [sample_item ''q1'', sample_item ''q2''],
      customers = [],
      products = [],
      pricing_settings = []\<rparr>"

definition sample_body :: quote_body where
  "sample_body = \<lparr>customerId = JNull, distance = JNum 25, notes' = JStr ''first order'',
                  items = None\<rparr>"

definition chat_body :: json where
  "chat_body = JObj [(''message'', JStr ''Is this margin right?'')]"

definition empty_quote :: context_quote where
  "empty_quote =
     \<lparr>cq_customerName = Some ''Alameda Food Bank'', cq_customerType = Some ''Food Bank'',
      cq_distance = Some 25, cq_items = Some []\<rparr>"

definition sample_context_item :: "bool \<Rightarrow> context_item" where
  "sample_context_item b =
     \<lparr>ci_product = ''Apples, Gala'', ci_cases = Some 100, ci_lineTotal = Some 3711,
      ci_pricePerCase = Some (3234 / 100), ci_marginPercent = 20, ci_bipoc = b\<rparr>"

text \<open>
  A rounding to try the summary with: to the nearest multiple of 1/1024, a binary format
  with ten fractional bits.
\<close>

definition nearest_1024th :: rounding where
  "nearest_1024th x = of_int \<lfloor>x * 1024 + 1 / 2\<rfloor> / 1024"

definition sample_context_quote :: context_quote where
  "sample_context_quote =
     empty_quote\<lparr>cq_items := Some [sample_context_item True, sample_context_item False]\<rparr>"

text \<open>A document with one tier whose bounds are reversed, and no region.\<close>

definition reversed_tier_settings :: json where
  "reversed_tier_settings = JObj
     [(''baseFreightRate'', JNum 125),
      (''perMileRate'', JNum (85 / 100)),
      (''palletBreakSurcharge'', JNum 15),
      (''volumeTiers'', JArr [tier 10 5 0]),
      (''regions'', JArr [])]"

definition free_product :: json where
  "free_product = JObj [(''name'', JStr ''Gleaned apples''), (''costPerCase'', JNum 0)]"

section \<open>Helper lemmas\<close>

lemma split_on_absent: "c \<notin> set s \<Longrightarrow> split_on c s = [s]"
  by (induction s) auto

lemma split_on_first: "c \<notin> set a \<Longrightarrow> split_on c (a @ c # b) = a # split_on c b"
  by (induction a) auto

lemma hexdigit_not_colon: "hexdigit n \<noteq> CHR '':''"
proof -
  have "n mod 16 < length ''0123456789abcdef''" by simp
  then have "''0123456789abcdef'' ! (n mod 16) \<in> set ''0123456789abcdef''"
    by (rule nth_mem)
  then show ?thesis unfolding hexdigit_def by auto
qed

lemma toHex_no_colon: "CHR '':'' \<notin> set (toHex bs)"
  by (induction bs) (auto simp: toHex_def hex_byte_def hexdigit_not_colon[symmetric])


lemma not_integer_example: "\<not> is_integer (5 / 2)"
proof -
  have "\<lfloor>(5::rat) / 2\<rfloor> = 2" by (simp add: floor_eq_iff)
  then show ?thesis by (simp add: is_integer_def)
qed



lemma nearest_1024th_rounding: "double_rounding nearest_1024th"
proof -
  have m: "mono nearest_1024th"
  proof (rule monoI)
    fix x y :: rat
    assume "x \<le> y"
    then have "x * 1024 + 1 / 2 \<le> y * 1024 + 1 / 2" by simp
    then have "\<lfloor>x * 1024 + 1 / 2\<rfloor> \<le> \<lfloor>y * 1024 + 1 / 2\<rfloor>" by (rule floor_mono)
    then have "(of_int \<lfloor>x * 1024 + 1 / 2\<rfloor> :: rat) \<le> of_int \<lfloor>y * 1024 + 1 / 2\<rfloor>"
      by simp
    then show "nearest_1024th x \<le> nearest_1024th y"
      by (simp add: nearest_1024th_def divide_right_mono)
  qed
  have z: "\<lfloor>(1::rat) / 2\<rfloor> = 0" by (simp add: floor_eq_iff)
  have o: "\<lfloor>(2049::rat) / 2\<rfloor> = 1024" by (simp add: floor_eq_iff)
  have h: "\<lfloor>(204801::rat) / 2\<rfloor> = 102400" by (simp add: floor_eq_iff)
  show ?thesis
    by (simp add: double_rounding_def m nearest_1024th_def z o h)
qed

lemma fraction_bounds:
  assumes "double_rounding rnd" and "xs \<noteq> []"
  shows "0 \<le> bipoc_fraction rnd xs \<and> bipoc_fraction rnd xs \<le> 1"
proof -
  let ?q = "(of_nat (length (filter ci_bipoc xs)) :: rat) / of_nat (length xs)"
  have le: "length (filter ci_bipoc xs) \<le> length xs" by (rule length_filter_le)
  have pos: "(0::rat) < of_nat (length xs)" using assms(2) by simp
  have "(of_nat (length (filter ci_bipoc xs)) :: rat) \<le> of_nat (length xs)"
    using le by (simp only: of_nat_le_iff)
  then have q: "0 \<le> ?q" "?q \<le> 1" using pos by simp_all
  have m: "mono rnd" and r0: "rnd 0 = 0" and r1: "rnd 1 = 1"
    using assms(1) by (simp_all add: double_rounding_def)
  have "rnd 0 \<le> rnd ?q" using m q(1) by (rule monoD)
  moreover have "rnd ?q \<le> rnd 1" using m q(2) by (rule monoD)
  ultimately show ?thesis by (simp add: bipoc_fraction_def r0 r1)
qed

lemma percent_bounds:
  assumes "double_rounding rnd" and "0 \<le> x" and "x \<le> 1"
  shows "0 \<le> math_round (rnd (x * 100)) \<and> math_round (rnd (x * 100)) \<le> 100"
proof -
  have m: "mono rnd" and r0: "rnd 0 = 0" and r100: "rnd 100 = 100"
    using assms(1) by (simp_all add: double_rounding_def)
  have lo100: "0 \<le> x * 100" and hi100: "x * 100 \<le> 100" using assms(2,3) by simp_all
  have "rnd 0 \<le> rnd (x * 100)" using m lo100 by (rule monoD)
  then have a: "0 \<le> rnd (x * 100)" by (simp only: r0)
  have "rnd (x * 100) \<le> rnd 100" using m hi100 by (rule monoD)
  then have b: "rnd (x * 100) \<le> 100" by (simp only: r100)
  have "0 \<le> rnd (x * 100) + 1 / 2" using a by simp
  then have lo: "0 \<le> \<lfloor>rnd (x * 100) + 1 / 2\<rfloor>" by simp
  have "rnd (x * 100) + 1 / 2 < 101" using b by simp
  then have "\<lfloor>rnd (x * 100) + 1 / 2\<rfloor> < 101" by (simp add: floor_less_iff)
  then show ?thesis using lo by (simp add: math_round_def)
qed

lemmas settings_unfold = getDefaultSettings_def reversed_tier_settings_def volumeTiers_of_def
  tier_def covered_def tier_covers_def tier_ordered_def

lemma default_tiers_cover:
  "0 \<le> n \<Longrightarrow> n \<le> 9999 \<Longrightarrow> covered (volumeTiers_of getDefaultSettings) n"
proof -
  assume a: "0 \<le> n" "n \<le> 9999"
  have "(0 \<le> n \<and> n \<le> 50) \<or> (51 \<le> n \<and> n \<le> 150) \<or> (151 \<le> n \<and> n \<le> 300)
        \<or> (301 \<le> n \<and> n \<le> 9999)"
    using a by arith
  then have "((0::rat) \<le> of_int n \<and> (of_int n :: rat) \<le> 50)
             \<or> ((51::rat) \<le> of_int n \<and> (of_int n :: rat) \<le> 150)
             \<or> ((151::rat) \<le> of_int n \<and> (of_int n :: rat) \<le> 300)
             \<or> ((301::rat) \<le> of_int n \<and> (of_int n :: rat) \<le> 9999)"
    by simp
  then show ?thesis
    by (simp add: settings_unfold)
qed

text \<open>The sibling paths of the quote deletion keep to the caller's organization.\<close>

lemma delete_quote_items:
  "\<not> failing db \<Longrightarrow>
   quote_items (snd (delete_quote db u qid))
     = filter (\<lambda>r. qi_quote_id r \<noteq> qid) (quote_items db)"
  by (simp add: delete_quote_def Let_def)

lemma update_quote_other_tenant:
  "\<not> list_ex (\<lambda>q. q_id q = qid \<and> q_organization_id q = organizationId u) (quotes db)
   \<Longrightarrow> snd (update_quote db u qid b now) = db"
  by (simp add: update_quote_def Let_def list_ex_iff filter_empty_conv)

lemma delete_customer_own_rows:
  "c \<in> set (customers db) \<Longrightarrow> c_organization_id c \<noteq> organizationId u
   \<Longrightarrow> c \<in> set (customers (snd (delete_customer db u cid)))"
  by (simp add: delete_customer_def Let_def)

lemma chat_not_401: "status (chat k outcome b) \<noteq> 401"
  by (simp add: chat_def Let_def error_response_def json_response_def split: sum.splits)

lemma analyze_quote_not_401: "status (analyze_quote outcome q) \<noteq> 401"
  by (simp add: analyze_quote_def Let_def error_response_def json_response_def
           split: sum.splits)

lemma suggest_margin_not_401: "status (suggest_margin outcome) \<noteq> 401"
  by (simp add: suggest_margin_def error_response_def json_response_def split: sum.splits)

lemma optionalAuth_next: "\<exists>u. optionalAuth verify authorization = Next u"
  by (simp add: optionalAuth_def split: option.splits)

lemma route_optionalAuth: "route (optionalAuth verify authorization) (\<lambda>u. r) = r"
  using optionalAuth_next [of verify authorization] by (auto simp: route_def)

section \<open>The worked pricing example\<close>




section \<open>Invalid case counts\<close>

text \<open>
  C6. Whenever the case count is zero, negative or not an integer, \<open>price_line\<close> fails
  with \<open>InvalidInput\<close>; the result is the error alone, with no price in it.
\<close>

theorem price_line_invalid_cases:
  "n \<le> 0 \<or> \<not> is_integer n
   \<Longrightarrow> price_line charge product n ct miles settings margin_override = Inl InvalidInput"
  by (auto simp: price_line_def)

text \<open>Zero cases, and two and a half cases, of the example product.\<close>

theorem price_line_invalid_cases_witness:
  "price_line no_break_charge example_product 0 FoodBank 40 (example_settings 15) None
     = Inl InvalidInput
   \<and> price_line no_break_charge example_product (5 / 2) FoodBank 40 (example_settings 15) None
     = Inl InvalidInput"
proof
  have zero: "(0::rat) \<le> 0 \<or> \<not> is_integer 0" by simp
  show "price_line no_break_charge example_product 0 FoodBank 40 (example_settings 15) None
          = Inl InvalidInput"
    by (rule price_line_invalid_cases [OF zero])
  have half: "(5 / 2 :: rat) \<le> 0 \<or> \<not> is_integer (5 / 2)"
    using not_integer_example by simp
  show "price_line no_break_charge example_product (5 / 2) FoodBank 40 (example_settings 15) None
          = Inl InvalidInput"
    by (rule price_line_invalid_cases [OF half])
qed

section \<open>The quote summary of the prompt builder\<close>

text \<open>
  C2, as stated, fails for the empty quote: the prompt builder computes no summary for
  it, and the analysis route answers it with an error.
\<close>

theorem summary_empty_counterexample:
  "summary nearest_1024th empty_quote = None
   \<and> analyze_quote (Inr [(''text'', ''fine'')]) (Some empty_quote)
       = error_response 400 ''Quote with items is required''"
  by (simp add: summary_def analyze_quote_def empty_quote_def)

text \<open>
  C2, amended. For a quote with at least one line item the summary counts the items
  whose BIPOC flag is set and divides by the number of items, in doubles: the fraction
  lies in [0,1], and the percentage shown, the fraction times 100 rounded to an
  integer, between 0 and 100. For a quote with an empty item list no summary is
  computed, and the analysis route answers 400.
\<close>

theorem summary_bipoc_fraction:
  "double_rounding rnd \<Longrightarrow>
   (cq_items q = Some its \<and> its \<noteq> [] \<longrightarrow>
      (\<exists>s. summary rnd q = Some s
           \<and> bipocCount s = length (filter ci_bipoc its)
           \<and> itemCount s = length its
           \<and> bipocPercent s = math_round (rnd (bipoc_fraction rnd its * 100))
           \<and> 0 \<le> bipocPercent s \<and> bipocPercent s \<le> 100)
      \<and> bipoc_fraction rnd its
          = rnd (of_nat (length (filter ci_bipoc its)) / of_nat (length its))
      \<and> 0 \<le> bipoc_fraction rnd its \<and> bipoc_fraction rnd its \<le> 1)
   \<and> (cq_items q = Some [] \<longrightarrow>
        summary rnd q = None
        \<and> analyze_quote outcome (Some q) = error_response 400 ''Quote with items is required'')"
proof (intro conjI impI)
  assume r: "double_rounding rnd" and h: "cq_items q = Some its \<and> its \<noteq> []"
  then have fr: "0 \<le> bipoc_fraction rnd its \<and> bipoc_fraction rnd its \<le> 1"
    by (simp add: fraction_bounds)
  then have pc: "0 \<le> math_round (rnd (bipoc_fraction rnd its * 100))
                 \<and> math_round (rnd (bipoc_fraction rnd its * 100)) \<le> 100"
    using r by (simp add: percent_bounds)
  show "\<exists>s. summary rnd q = Some s
           \<and> bipocCount s = length (filter ci_bipoc its)
           \<and> itemCount s = length its
           \<and> bipocPercent s = math_round (rnd (bipoc_fraction rnd its * 100))
           \<and> 0 \<le> bipocPercent s \<and> bipocPercent s \<le> 100"
    using h pc by (simp add: summary_def)
  show "bipoc_fraction rnd its
          = rnd (of_nat (length (filter ci_bipoc its)) / of_nat (length its))"
    by (simp add: bipoc_fraction_def)
  show "0 \<le> bipoc_fraction rnd its" using fr by simp
  show "bipoc_fraction rnd its \<le> 1" using fr by simp
next
  assume e: "cq_items q = Some []"
  show "summary rnd q = None" using e by (simp add: summary_def)
  show "analyze_quote outcome (Some q) = error_response 400 ''Quote with items is required''"
    using e by (simp add: analyze_quote_def)
qed

text \<open>A quote of two items, one of them BIPOC; and the empty quote.\<close>

theorem summary_bipoc_fraction_witness:
  "(\<exists>s. summary nearest_1024th sample_context_quote = Some s
        \<and> bipocCount s = 1 \<and> itemCount s = 2
        \<and> 0 \<le> bipocPercent s \<and> bipocPercent s \<le> 100)
   \<and> 0 \<le> bipoc_fraction nearest_1024th [sample_context_item True, sample_context_item False]
   \<and> bipoc_fraction nearest_1024th [sample_context_item True, sample_context_item False] \<le> 1
   \<and> summary nearest_1024th empty_quote = None"
proof -
  let ?its = "[sample_context_item True, sample_context_item False]"
  note r = nearest_1024th_rounding
  have h: "cq_items sample_context_quote = Some ?its \<and> ?its \<noteq> []"
    by (simp add: sample_context_quote_def)
  have e: "cq_items empty_quote = Some []"
    by (simp add: empty_quote_def)
  have n: "length (filter ci_bipoc ?its) = 1" "length ?its = 2"
    by (simp_all add: sample_context_item_def)
  from summary_bipoc_fraction [OF r, of sample_context_quote ?its] h
  have a: "\<exists>s. summary nearest_1024th sample_context_quote = Some s
             \<and> bipocCount s = length (filter ci_bipoc ?its)
             \<and> itemCount s = length ?its
             \<and> bipocPercent s = math_round (nearest_1024th (bipoc_fraction nearest_1024th ?its * 100))
             \<and> 0 \<le> bipocPercent s \<and> bipocPercent s \<le> 100"
    and b: "0 \<le> bipoc_fraction nearest_1024th ?its"
    and c: "bipoc_fraction nearest_1024th ?its \<le> 1"
    by blast+
  from summary_bipoc_fraction [OF r, of empty_quote "[]"] e
  have d: "summary nearest_1024th empty_quote = None" by blast
  from a n have a': "\<exists>s. summary nearest_1024th sample_context_quote = Some s
        \<and> bipocCount s = 1 \<and> itemCount s = 2
        \<and> 0 \<le> bipocPercent s \<and> bipocPercent s \<le> 100"
    by metis
  from a' b c d show ?thesis by blast
qed

section \<open>Password hashing\<close>

text \<open>
  C8. A password verifies against the hash made from it, whatever the random salt:
  the stored string is the hexadecimal salt, a colon and the hexadecimal key, neither
  part contains a colon, so splitting at the colon gives back the salt and the key,
  and the key derived again from the same password and salt is the same.
\<close>

theorem verifyPassword_hashPassword:
  "verifyPassword pbkdf2 password (hashPassword pbkdf2 rnd password) = True"
  by (simp add: verifyPassword_def hashPassword_def Let_def split_on_first split_on_absent
                toHex_no_colon)

text \<open>A key derivation that returns the bytes 3a and ff, and a salt of three bytes.\<close>

theorem verifyPassword_hashPassword_witness:
  "hashPassword (\<lambda>p s i k d. [0x3a, 0xff]) [0x00, 0x9f, 0x3a] ''password123'' = ''009f3a:3aff''
   \<and> verifyPassword (\<lambda>p s i k d. [0x3a, 0xff]) ''password123'' ''009f3a:3aff''"
proof -
  have h: "hashPassword (\<lambda>p s i k d. [0x3a, 0xff]) [0x00, 0x9f, 0x3a] ''password123''
             = ''009f3a:3aff''"
    by (simp add: hashPassword_def toHex_def hex_byte_def hexdigit_def)
  from verifyPassword_hashPassword
         [of "\<lambda>p s i k d. [0x3a, 0xff]" "''password123''" "[0x00, 0x9f, 0x3a]"] h
  show ?thesis by simp
qed

section \<open>Tenant isolation of the quote deletion\<close>

text \<open>
  C3 does not hold of \<open>DELETE /api/quotes/:id\<close>. Alice, of organization \<open>org-a\<close>, asks to
  delete quote \<open>q2\<close> of organization \<open>org-b\<close>: the answer is 404 and the quote stays, but
  its line item is gone, deleted by quote id before the ownership was looked at.
\<close>

theorem delete_quote_other_tenant:
  "organizationId alice = ''org-a''
   \<and> map (\<lambda>q. (q_id q, q_organization_id q)) (quotes sample_db)
       = [(''q1'', ''org-a''), (''q2'', ''org-b'')]
   \<and> map qi_quote_id (quote_items sample_db) = [''q1'', ''q2'']
   \<and> fst (delete_quote sample_db alice ''q2'') = error_response 404 ''Quote not found''
   \<and> quotes (snd (delete_quote sample_db alice ''q2'')) = quotes sample_db
   \<and> map qi_quote_id (quote_items (snd (delete_quote sample_db alice ''q2''))) = [''q1'']"
  by (simp add: delete_quote_def sample_db_def alice_def sample_quote_def sample_item_def
                Let_def)

text \<open>The request changed the line items.\<close>

theorem delete_quote_other_tenant_witness:
  "quote_items (snd (delete_quote sample_db alice ''q2'')) \<noteq> quote_items sample_db"
proof
  assume same: "quote_items (snd (delete_quote sample_db alice ''q2'')) = quote_items sample_db"
  from delete_quote_other_tenant
  have before: "map qi_quote_id (quote_items sample_db) = [''q1'', ''q2'']"
    and after: "map qi_quote_id (quote_items (snd (delete_quote sample_db alice ''q2'')))
                  = [''q1'']"
    by blast+
  from after have "map qi_quote_id (quote_items sample_db) = [''q1'']"
    by (simp only: same)
  then have "[''q1'', ''q2''] = [''q1'']"
    by (simp only: before)
  then show False by simp
qed

section \<open>Volume tiers of accepted settings\<close>

text \<open>
  C4, as stated, fails. Validation accepts a document whose only tier has its bounds
  reversed and covers no case count, not even 0; and the tiers of the default document
  end at 9999, so 10000 cases are not covered.
\<close>

theorem validateSettings_counterexample:
  "validateSettings reversed_tier_settings = None
   \<and> \<not> covered (volumeTiers_of reversed_tier_settings) 0
   \<and> \<not> list_all tier_ordered (volumeTiers_of reversed_tier_settings)
   \<and> \<not> covered (volumeTiers_of getDefaultSettings) 10000"
  by (simp add: validateSettings_def settings_unfold)

text \<open>
  C4, amended. The tiers of the default document cover every case count from 0 to 9999
  without a gap, each with \<open>minCases \<le> maxCases\<close>, and the default document passes
  validation. Validation accepts a document exactly when its three rates are
  non-negative numbers and its tiers and regions are arrays; the tiers' contents are
  not examined.
\<close>

theorem default_tiers_and_validation:
  "(0 \<le> n \<and> n \<le> 9999 \<longrightarrow> covered (volumeTiers_of getDefaultSettings) n)
   \<and> list_all tier_ordered (volumeTiers_of getDefaultSettings)
   \<and> validateSettings getDefaultSettings = None
   \<and> (validateSettings s = None \<longleftrightarrow>
        is_number (get s ''baseFreightRate'') \<and> \<not> negative (get s ''baseFreightRate'')
        \<and> is_number (get s ''perMileRate'') \<and> \<not> negative (get s ''perMileRate'')
        \<and> is_number (get s ''palletBreakSurcharge'')
        \<and> \<not> negative (get s ''palletBreakSurcharge'')
        \<and> isArray (get s ''volumeTiers'') \<and> isArray (get s ''regions''))"
proof (intro conjI impI)
  assume "0 \<le> n \<and> n \<le> 9999"
  then show "covered (volumeTiers_of getDefaultSettings) n"
    by (simp add: default_tiers_cover)
next
  show "list_all tier_ordered (volumeTiers_of getDefaultSettings)"
    by (simp add: settings_unfold)
next
  show "validateSettings getDefaultSettings = None"
    by (simp add: validateSettings_def getDefaultSettings_def)
next
  show "validateSettings s = None \<longleftrightarrow>
        is_number (get s ''baseFreightRate'') \<and> \<not> negative (get s ''baseFreightRate'')
        \<and> is_number (get s ''perMileRate'') \<and> \<not> negative (get s ''perMileRate'')
        \<and> is_number (get s ''palletBreakSurcharge'')
        \<and> \<not> negative (get s ''palletBreakSurcharge'')
        \<and> isArray (get s ''volumeTiers'') \<and> isArray (get s ''regions'')"
    by (auto simp: validateSettings_def split: if_splits)
qed

text \<open>The default tiers at 100 and at 9999 cases; the document with the reversed tier.\<close>

theorem default_tiers_and_validation_witness:
  "covered (volumeTiers_of getDefaultSettings) 100
   \<and> covered (volumeTiers_of getDefaultSettings) 9999
   \<and> validateSettings reversed_tier_settings = None"
proof -
  have r: "is_number (get reversed_tier_settings ''baseFreightRate'')
        \<and> \<not> negative (get reversed_tier_settings ''baseFreightRate'')
        \<and> is_number (get reversed_tier_settings ''perMileRate'')
        \<and> \<not> negative (get reversed_tier_settings ''perMileRate'')
        \<and> is_number (get reversed_tier_settings ''palletBreakSurcharge'')
        \<and> \<not> negative (get reversed_tier_settings ''palletBreakSurcharge'')
        \<and> isArray (get reversed_tier_settings ''volumeTiers'')
        \<and> isArray (get reversed_tier_settings ''regions'')"
    by (simp add: reversed_tier_settings_def)
  from default_tiers_and_validation [of 100 reversed_tier_settings] r
  have a: "covered (volumeTiers_of getDefaultSettings) 100"
    and c: "validateSettings reversed_tier_settings = None"
    by simp_all
  from default_tiers_and_validation [of 9999 reversed_tier_settings]
  have b: "covered (volumeTiers_of getDefaultSettings) 9999" by simp
  from a b c show ?thesis by simp
qed

section \<open>Quote status\<close>

text \<open>
  C5, as stated, fails. Quote \<open>q1\<close> is rejected, a terminal state; Alice finalizes it,
  the answer is 200 and the quote is sent.
\<close>

theorem finalize_quote_counterexample:
  "map (\<lambda>q. (q_id q, q_status q)) (quotes sample_db)
     = [(''q1'', ''rejected''), (''q2'', ''draft'')]
   \<and> status (fst (finalize_quote sample_db alice ''q1'' 7)) = 200
   \<and> map (\<lambda>q. (q_id q, q_status q)) (quotes (snd (finalize_quote sample_db alice ''q1'' 7)))
       = [(''q1'', ''sent''), (''q2'', ''draft'')]"
  by (simp add: finalize_quote_def sample_db_def alice_def sample_quote_def Let_def
                json_response_def)

text \<open>
  C5, amended. A quote is created with status draft. Finalizing sets the status of the
  caller's quote to sent whatever it was before, and leaves every other quote's status
  as it is; updating a quote does not change any status.
\<close>

theorem quote_status_writes:
  "(\<not> failing db \<longrightarrow>
      map q_status (quotes (snd (finalize_quote db u qid now)))
        = map (\<lambda>q. if q_id q = qid \<and> q_organization_id q = organizationId u
                    then ''sent'' else q_status q) (quotes db))
   \<and> (failing db \<longrightarrow> snd (finalize_quote db u qid now) = db)
   \<and> map q_status (quotes (snd (update_quote db u qid b now))) = map q_status (quotes db)
   \<and> (\<not> failing db \<longrightarrow>
        map q_status (quotes (snd (create_quote db u b newid now)))
          = map q_status (quotes db) @ [''draft''])"
proof (intro conjI impI)
  assume "\<not> failing db"
  then show "map q_status (quotes (snd (finalize_quote db u qid now)))
        = map (\<lambda>q. if q_id q = qid \<and> q_organization_id q = organizationId u
                    then ''sent'' else q_status q) (quotes db)"
    by (simp add: finalize_quote_def Let_def split: list.splits)
next
  assume "failing db"
  then show "snd (finalize_quote db u qid now) = db"
    by (simp add: finalize_quote_def)
next
  show "map q_status (quotes (snd (update_quote db u qid b now))) = map q_status (quotes db)"
    by (cases "items b") (simp_all add: update_quote_def Let_def comp_def)
next
  assume "\<not> failing db"
  then show "map q_status (quotes (snd (create_quote db u b newid now)))
          = map q_status (quotes db) @ [''draft'']"
    by (simp add: create_quote_def Let_def)
qed

text \<open>Alice finalizes her rejected quote, tries the other tenant's, and creates a third.\<close>

theorem quote_status_writes_witness:
  "map q_status (quotes (snd (finalize_quote sample_db alice ''q1'' 7))) = [''sent'', ''draft'']
   \<and> map q_status (quotes (snd (finalize_quote sample_db alice ''q2'' 7)))
       = [''rejected'', ''draft'']
   \<and> map q_status (quotes (snd (create_quote sample_db alice sample_body ''q3'' 7)))
       = [''rejected'', ''draft'', ''draft'']"
proof -
  have nf: "\<not> failing sample_db" by (simp add: sample_db_def)
  have qs: "quotes sample_db
              = [sample_quote ''q1'' ''org-a'' ''rejected'', sample_quote ''q2'' ''org-b'' ''draft'']"
    by (simp add: sample_db_def)
  from quote_status_writes [of sample_db alice "''q1''" 7 sample_body "''q3''"] nf
  have a: "map q_status (quotes (snd (finalize_quote sample_db alice ''q1'' 7)))
        = map (\<lambda>q. if q_id q = ''q1'' \<and> q_organization_id q = organizationId alice
                    then ''sent'' else q_status q) (quotes sample_db)"
    and c: "map q_status (quotes (snd (create_quote sample_db alice sample_body ''q3'' 7)))
          = map q_status (quotes sample_db) @ [''draft'']"
    by simp_all
  from quote_status_writes [of sample_db alice "''q2''" 7 sample_body "''q3''"] nf
  have b: "map q_status (quotes (snd (finalize_quote sample_db alice ''q2'' 7)))
        = map (\<lambda>q. if q_id q = ''q2'' \<and> q_organization_id q = organizationId alice
                    then ''sent'' else q_status q) (quotes sample_db)"
    by simp
  have a': "map q_status (quotes (snd (finalize_quote sample_db alice ''q1'' 7)))
              = [''sent'', ''draft'']"
    unfolding a by (simp add: qs sample_quote_def alice_def)
  have b': "map q_status (quotes (snd (finalize_quote sample_db alice ''q2'' 7)))
              = [''rejected'', ''draft'']"
    unfolding b by (simp add: qs sample_quote_def alice_def)
  have c': "map q_status (quotes (snd (create_quote sample_db alice sample_body ''q3'' 7)))
              = [''rejected'', ''draft'', ''draft'']"
    unfolding c by (simp add: qs sample_quote_def)
  from a' b' c' show ?thesis by blast
qed

section \<open>Missing settings\<close>

text \<open>
  C7. When the database answers and holds no settings row for the caller's
  organization, \<open>GET /api/settings\<close> answers 200 with the default settings document.
\<close>

theorem get_settings_default:
  "\<not> failing db
   \<Longrightarrow> \<not> list_ex (\<lambda>r. ps_organization_id r = organizationId u) (pricing_settings db)
   \<Longrightarrow> get_settings db u = json_response 200 (JObj [(''settings'', getDefaultSettings)])"
  by (simp add: get_settings_def Let_def list_ex_iff filter_empty_conv[THEN iffD2]
           split: list.splits)

text \<open>The sample database has no settings row at all.\<close>

theorem get_settings_default_witness:
  "get_settings sample_db alice = json_response 200 (JObj [(''settings'', getDefaultSettings)])
   \<and> status (get_settings sample_db alice) = 200"
proof -
  have a: "\<not> failing sample_db" by (simp add: sample_db_def)
  have b: "\<not> list_ex (\<lambda>r. ps_organization_id r = organizationId alice)
               (pricing_settings sample_db)"
    by (simp add: sample_db_def)
  from get_settings_default [OF a b] show ?thesis by (simp add: json_response_def)
qed

section \<open>The AI routes without a token\<close>

text \<open>
  C9. \<open>optionalAuth\<close> always calls \<open>next\<close>; without an authorization header, or with a
  token that does not verify, the user is null. So each AI route answers what its
  handler answers, and no handler answers 401.
\<close>

theorem optionalAuth_never_rejects:
  "(\<exists>u. optionalAuth verify authorization = Next u)
   \<and> optionalAuth verify None = Next None
   \<and> (jwt_verify verify (bearer_token h) = None \<longrightarrow> optionalAuth verify (Some h) = Next None)
   \<and> ai_chat verify authorization k outcome b = chat k outcome b
   \<and> ai_analyze_quote verify authorization outcome q = analyze_quote outcome q
   \<and> ai_suggest_margin verify authorization outcome = suggest_margin outcome
   \<and> status (ai_chat verify authorization k outcome b) \<noteq> 401
   \<and> status (ai_analyze_quote verify authorization outcome q) \<noteq> 401
   \<and> status (ai_suggest_margin verify authorization outcome) \<noteq> 401"
proof (intro conjI impI)
  show "\<exists>u. optionalAuth verify authorization = Next u" by (rule optionalAuth_next)
  show "optionalAuth verify None = Next None" by (simp add: optionalAuth_def)
  show "optionalAuth verify (Some h) = Next None" if "jwt_verify verify (bearer_token h) = None"
    using that by (simp add: optionalAuth_def)
  show c: "ai_chat verify authorization k outcome b = chat k outcome b"
    by (simp add: ai_chat_def route_optionalAuth)
  show a: "ai_analyze_quote verify authorization outcome q = analyze_quote outcome q"
    by (simp add: ai_analyze_quote_def route_optionalAuth)
  show s: "ai_suggest_margin verify authorization outcome = suggest_margin outcome"
    by (simp add: ai_suggest_margin_def route_optionalAuth)
  show "status (ai_chat verify authorization k outcome b) \<noteq> 401"
    by (simp only: c chat_not_401 not_False_eq_True)
  show "status (ai_analyze_quote verify authorization outcome q) \<noteq> 401"
    by (simp only: a analyze_quote_not_401 not_False_eq_True)
  show "status (ai_suggest_margin verify authorization outcome) \<noteq> 401"
    by (simp only: s suggest_margin_not_401 not_False_eq_True)
qed

text \<open>
  A forged token: \<open>requireAuth\<close> would answer 401, \<open>optionalAuth\<close> lets the chat through.
  With no header, an API failure with status 401 is answered 503.
\<close>

theorem optionalAuth_never_rejects_witness:
  "optionalAuth (\<lambda>t. None) (Some ''Bearer forged'') = Next None
   \<and> requireAuth (\<lambda>t. None) (Some ''Bearer forged'')
       = Respond (error_response 401 ''Invalid token'')
   \<and> ai_chat (\<lambda>t. None) (Some ''Bearer forged'') True (Inr [(''text'', ''ok'')]) chat_body
       = json_response 200 (JObj [(''response'', JStr ''ok'')])
   \<and> status (ai_chat (\<lambda>t. None) None True (Inl (Some 401)) chat_body) = 503"
proof -
  have v: "jwt_verify (\<lambda>t. None) (bearer_token ''Bearer forged'') = None"
    by (simp add: jwt_verify_def split: option.splits)
  from optionalAuth_never_rejects
         [of "\<lambda>t. None" "Some ''Bearer forged''" "''Bearer forged''" True
             "Inr [(''text'', ''ok'')]" chat_body] v
  have a: "optionalAuth (\<lambda>t. None) (Some ''Bearer forged'') = Next None"
    and b: "ai_chat (\<lambda>t. None) (Some ''Bearer forged'') True (Inr [(''text'', ''ok'')]) chat_body
             = chat True (Inr [(''text'', ''ok'')]) chat_body"
    by simp_all
  from optionalAuth_never_rejects
         [of "\<lambda>t. None" None "[]" True "Inl (Some 401)" chat_body]
  have c: "ai_chat (\<lambda>t. None) None True (Inl (Some 401)) chat_body
             = chat True (Inl (Some 401)) chat_body"
    by simp
  have r: "requireAuth (\<lambda>t. None) (Some ''Bearer forged'')
             = Respond (error_response 401 ''Invalid token'')"
    by (simp add: requireAuth_def jwt_verify_def bearer_token_def)
  have b': "ai_chat (\<lambda>t. None) (Some ''Bearer forged'') True (Inr [(''text'', ''ok'')]) chat_body
              = json_response 200 (JObj [(''response'', JStr ''ok'')])"
    unfolding b by (simp add: chat_def chat_body_def is_string_def text_of_def)
  have c': "status (ai_chat (\<lambda>t. None) None True (Inl (Some 401)) chat_body) = 503"
    unfolding c by (simp add: chat_def chat_body_def is_string_def error_response_def)
  from a r b' c' show ?thesis by blast
qed

section \<open>Products that cost nothing\<close>

text \<open>
  C10, as stated, fails in one detail: the single-file server refuses a product whose
  cost per case is 0 with another message than the one the claim quotes.
\<close>

theorem create_product_zero_cost_counterexample:
  "get free_product ''costPerCase'' = JNum 0
   \<and> fst (create_product_standalone sample_db alice free_product ''p9'')
       \<noteq> error_response 400 ''Name and cost per case are required''"
  by (simp add: create_product_standalone_def free_product_def error_response_def)

text \<open>
  C10, amended. A request to create a product whose cost per case is exactly 0 is
  refused with status 400 and nothing is inserted, since 0 is falsy: the products
  router answers 'Name and cost per case are required', the single-file server
  'Name and cost required'.
\<close>

theorem create_product_zero_cost:
  "get b ''costPerCase'' = JNum 0 \<Longrightarrow>
     create_product db u b newid
       = (error_response 400 ''Name and cost per case are required'', db)
     \<and> create_product_standalone db u b newid
       = (error_response 400 ''Name and cost required'', db)"
  by (simp add: create_product_def create_product_standalone_def)

text \<open>A named product at cost 0.\<close>

theorem create_product_zero_cost_witness:
  "create_product sample_db alice free_product ''p9''
     = (error_response 400 ''Name and cost per case are required'', sample_db)
   \<and> create_product_standalone sample_db alice free_product ''p9''
     = (error_response 400 ''Name and cost required'', sample_db)
   \<and> truthy (get free_product ''name'')"
proof -
  have z: "get free_product ''costPerCase'' = JNum 0" by (simp add: free_product_def)
  from create_product_zero_cost [OF z, of sample_db alice "''p9''"]
  show ?thesis by (simp add: free_product_def)
qed

end
